theory Spec2Isabelle
  imports Complex_Main "HOL-Library.Sublist"
begin

section \<open>Python strings\<close>

text \<open>
  A Python \<open>str\<close> is a sequence of Unicode code points, and \<open>len\<close> counts code points.
  The study material is arbitrary user text, so it is a list of code points. The text of
  the program itself (labels, template lines, widget options) is ASCII and is written as
  a HOL string literal, embedded by \<open>lit\<close>.
\<close>

type_synonym pystr = "nat list"

definition lit :: "string \<Rightarrow> pystr" where
  "lit s = map of_char s"

definition nl :: pystr where
  "nl = [10]"

text \<open>\<open>sep.join(xs)\<close>\<close>

fun py_join :: "pystr \<Rightarrow> pystr list \<Rightarrow> pystr" where
  "py_join sep [] = []"
| "py_join sep [x] = x"
| "py_join sep (x # y # ys) = x @ sep @ py_join sep (y # ys)"

text \<open>
  \<open>str.isspace\<close> for one code point: the characters \<open>str.strip()\<close> and \<open>str.split()\<close>
  (both without argument) treat as whitespace.
\<close>

definition isspace :: "nat \<Rightarrow> bool" where
  "isspace c \<longleftrightarrow>
     (9 \<le> c \<and> c \<le> 13) \<or> (28 \<le> c \<and> c \<le> 32) \<or> c = 133 \<or> c = 160 \<or> c = 5760 \<or>
     (8192 \<le> c \<and> c \<le> 8202) \<or> c = 8232 \<or> c = 8233 \<or> c = 8239 \<or> c = 8287 \<or> c = 12288"

text \<open>\<open>s.strip()\<close>\<close>

definition strip :: "pystr \<Rightarrow> pystr" where
  "strip s = rev (dropWhile isspace (rev (dropWhile isspace s)))"

text \<open>
  \<open>s.split()\<close>: skip whitespace, take the run of non-whitespace that follows as one
  token, and go on behind it.
\<close>

function split_ws :: "pystr \<Rightarrow> pystr list" where
  "split_ws s =
     (case dropWhile isspace s of
        [] \<Rightarrow> []
      | c # cs \<Rightarrow>
          (c # takeWhile (\<lambda>x. \<not> isspace x) cs) # split_ws (dropWhile (\<lambda>x. \<not> isspace x) cs))"
  by pat_completeness auto
termination
proof (relation "measure length")
  show "wf (measure length)" by simp
next
  fix s :: pystr and c cs
  assume a: "dropWhile isspace s = c # cs"
  have "length (dropWhile (\<lambda>x. \<not> isspace x) cs) \<le> length cs"
    by (rule length_dropWhile_le)
  moreover have "length (c # cs) \<le> length s"
    using length_dropWhile_le [of isspace s] a by simp
  ultimately show "(dropWhile (\<lambda>x. \<not> isspace x) cs, s) \<in> measure length"
    by simp
qed

declare split_ws.simps [simp del]

text \<open>\<open>str(n)\<close> and \<open>f"{n}"\<close> for a Python int: decimal digits, with a minus sign.\<close>

fun digits :: "nat \<Rightarrow> pystr" where
  "digits n = (if n < 10 then [48 + n] else digits (n div 10) @ [48 + n mod 10])"

declare digits.simps [simp del]

definition str_int :: "int \<Rightarrow> pystr" where
  "str_int i = (if i < 0 then 45 # digits (nat (- i)) else digits (nat i))"

text \<open>
  \<open>s.capitalize()\<close>: the first character in upper case, the rest in lower case. The program
  applies it to the values of \<open>detail_mapping\<close> only, which are ASCII, and the model maps
  the ASCII letters and leaves every other code point as it is.
\<close>

definition upper_ascii :: "nat \<Rightarrow> nat" where
  "upper_ascii c = (if 97 \<le> c \<and> c \<le> 122 then c - 32 else c)"

definition lower_ascii :: "nat \<Rightarrow> nat" where
  "lower_ascii c = (if 65 \<le> c \<and> c \<le> 90 then c + 32 else c)"

fun capitalize :: "pystr \<Rightarrow> pystr" where
  "capitalize [] = []"
| "capitalize (c # cs) = upper_ascii c # map lower_ascii cs"

text \<open>\<open>s.split('\n')\<close>, the lines of a text.\<close>

fun split_lines :: "pystr \<Rightarrow> pystr list" where
  "split_lines [] = [[]]"
| "split_lines (c # cs) =
     (if c = 10 then [] # split_lines cs
      else (case split_lines cs of [] \<Rightarrow> [[c]] | l # ls \<Rightarrow> (c # l) # ls))"


section \<open>Options and prompt construction\<close>

text \<open>
  The sidebar widgets. \<open>guide_type\<close> and \<open>detail_level\<close> are the strings the select boxes
  return; the program compares and looks them up as strings.
\<close>

record options =
  model :: pystr
  guide_type :: pystr
  detail_level :: pystr
  num_questions :: int
  include_mcq :: bool
  include_short :: bool
  include_essay :: bool

datatype pyexn = KeyError pystr | IndexError | RemoteError pystr

definition detail_mapping :: "pystr \<rightharpoonup> pystr" where
  "detail_mapping = map_of
     [(lit ''Brief'', lit ''concise and to-the-point''),
      (lit ''Moderate'', lit ''balanced with good coverage''),
      (lit ''Detailed'', lit ''comprehensive and thorough''),
      (lit ''Very Detailed'', lit ''extremely detailed with in-depth explanations'')]"

text \<open>The list \<open>question_types\<close> after the three conditional appends.\<close>

definition question_types :: "bool \<Rightarrow> bool \<Rightarrow> bool \<Rightarrow> pystr list" where
  "question_types mcq short essay =
     (let qs = [];
          qs = (if mcq then qs @ [lit ''multiple choice questions''] else qs);
          qs = (if short then qs @ [lit ''short answer questions''] else qs);
          qs = (if essay then qs @ [lit ''essay questions''] else qs)
      in qs)"

definition question_type_str :: "bool \<Rightarrow> bool \<Rightarrow> bool \<Rightarrow> pystr" where
  "question_type_str mcq short essay =
     (let qs = question_types mcq short essay
      in if qs \<noteq> [] then py_join (lit '', '') qs else lit ''practice questions'')"

text \<open>
  The four triple-quoted f-strings, one list element per source line; the string is the
  elements joined by newlines. An expression \<open>{x if b else ""}\<close> that stands alone on a
  line is the element \<open>if b then x else []\<close>.
\<close>

definition comprehensive_lines ::
  "pystr \<Rightarrow> pystr \<Rightarrow> int \<Rightarrow> pystr \<Rightarrow> bool \<Rightarrow> bool \<Rightarrow> bool \<Rightarrow> pystr list" where
  "comprehensive_lines study_material d n qts mcq short essay =
     [lit ''Create a '' @ d @ lit '' study guide from the following material.'',
      [],
      lit ''STUDY MATERIAL:'',
      study_material,
      [],
      lit ''Generate a comprehensive study guide with these sections:'',
      [],
      lit ''1. **OVERVIEW** - Brief summary of the main topic and its importance'',
      [],
      lit ''2. **KEY CONCEPTS** - Main ideas explained clearly with examples where relevant'',
      [],
      lit ''3. **IMPORTANT DEFINITIONS** - Essential terms with clear, concise definitions'',
      [],
      lit ''4. **DETAILED NOTES** - '' @ capitalize d
        @ lit '' explanation of the content, organized by subtopics'',
      [],
      lit ''5. **PRACTICE QUESTIONS** - Create '' @ str_int n @ lit '' '' @ qts @ lit '':'',
      (if mcq then lit ''   - Multiple choice questions (with 4 options and correct answer)''
       else []),
      (if short then lit ''   - Short answer questions'' else []),
      (if essay then lit ''   - Essay questions with key points to cover'' else []),
      [],
      lit ''6. **STUDY TIPS** - Memory aids, mnemonics, and connections to help remember the material'',
      [],
      lit ''7. **SUMMARY** - Quick review of the most critical points'',
      [],
      lit ''Format everything in clear markdown with proper headers, bullet points, and emphasis where needed.'']"

definition summary_lines :: "pystr \<Rightarrow> pystr \<Rightarrow> pystr list" where
  "summary_lines study_material d =
     [lit ''Create a '' @ d @ lit '' summary of the following study material.'',
      [],
      lit ''STUDY MATERIAL:'',
      study_material,
      [],
      lit ''Provide:'',
      lit ''1. Main topic overview'',
      lit ''2. Key points and concepts (organized logically)'',
      lit ''3. Important takeaways'',
      lit ''4. Quick review summary'',
      [],
      lit ''Be '' @ d @ lit '' and use clear markdown formatting.'']"

definition definitions_lines :: "pystr \<Rightarrow> pystr \<Rightarrow> pystr list" where
  "definitions_lines study_material d =
     [lit ''Extract and explain all important terms and concepts from the following material.'',
      [],
      lit ''STUDY MATERIAL:'',
      study_material,
      [],
      lit ''Create a comprehensive definitions guide with:'',
      lit ''1. **TERM**: Clear, '' @ d @ lit '' definition'',
      lit ''2. Context of how it's used'',
      lit ''3. Examples where helpful'',
      lit ''4. Related terms'',
      [],
      lit ''Organize alphabetically and use clear markdown formatting.'']"

definition questions_lines ::
  "pystr \<Rightarrow> int \<Rightarrow> pystr \<Rightarrow> bool \<Rightarrow> bool \<Rightarrow> bool \<Rightarrow> pystr list" where
  "questions_lines study_material n qts mcq short essay =
     [lit ''Create '' @ str_int n @ lit '' practice questions from the following study material.'',
      [],
      lit ''STUDY MATERIAL:'',
      study_material,
      [],
      lit ''Generate '' @ qts @ lit '':'',
      (if mcq
       then lit ''- Multiple choice questions with 4 options, correct answer, and brief explanation''
       else []),
      (if short then lit ''- Short answer questions with sample answers'' else []),
      (if essay then lit ''- Essay questions with key points that should be covered'' else []),
      [],
      lit ''Include a variety of difficulty levels and ensure questions cover all major concepts.'',
      lit ''Format with clear markdown and proper numbering.'']"

text \<open>
  The construction of \<open>prompt\<close>. A \<open>detail_level\<close> that is no key of \<open>detail_mapping\<close>
  raises \<open>KeyError\<close> in the three branches that look it up; the last branch does not.
\<close>

definition prompt :: "pystr \<Rightarrow> options \<Rightarrow> pyexn + pystr" where
  "prompt study_material opts =
     (let qts = question_type_str (include_mcq opts) (include_short opts) (include_essay opts)
      in if guide_type opts = lit ''Comprehensive (All sections)'' then
           (case detail_mapping (detail_level opts) of
              None \<Rightarrow> Inl (KeyError (detail_level opts))
            | Some d \<Rightarrow>
                Inr (py_join nl (comprehensive_lines study_material d (num_questions opts) qts
                      (include_mcq opts) (include_short opts) (include_essay opts))))
         else if guide_type opts = lit ''Summary Only'' then
           (case detail_mapping (detail_level opts) of
              None \<Rightarrow> Inl (KeyError (detail_level opts))
            | Some d \<Rightarrow> Inr (py_join nl (summary_lines study_material d)))
         else if guide_type opts = lit ''Definitions Focus'' then
           (case detail_mapping (detail_level opts) of
              None \<Rightarrow> Inl (KeyError (detail_level opts))
            | Some d \<Rightarrow> Inr (py_join nl (definitions_lines study_material d)))
         else
           Inr (py_join nl (questions_lines study_material (num_questions opts) qts
                 (include_mcq opts) (include_short opts) (include_essay opts))))"


section \<open>Word count panel\<close>

text \<open>
  The panel beside the input: shown only for a non-empty material (\<open>if study_material:\<close>),
  it reports the word count and one of three messages (\<open>st.warning\<close>, \<open>st.info\<close>,
  \<open>st.success\<close>), named here as the specification names them.
\<close>

datatype sufficiency = TooShort | Short | Sufficient

definition word_count :: "pystr \<Rightarrow> nat" where
  "word_count study_material = length (split_ws study_material)"

definition word_count_panel :: "pystr \<Rightarrow> (nat \<times> sufficiency) option" where
  "word_count_panel study_material =
     (if study_material = [] then None
      else
        (let wc = word_count study_material
         in Some (wc, if wc < 100 then TooShort else if wc < 200 then Short else Sufficient)))"


section \<open>Generation\<close>

text \<open>
  \<open>st.session_state\<close>: the stored guide and the credential, both \<open>None\<close> at the start of
  a session.
\<close>

record session_state =
  study_guide :: "pystr option"
  api_key :: "pystr option"

text \<open>The keyword arguments of \<open>client.chat.completions.create\<close>.\<close>

record request =
  system_content :: pystr
  user_content :: pystr
  request_model :: pystr
  temperature :: real
  max_tokens :: int

text \<open>
  The remote service is a parameter of the model. \<open>Groq(api_key=k)\<close> either raises or
  gives a client; the client's \<open>create\<close> either raises or returns the completion
  choices, in order. Of a choice the program reads \<open>message.content\<close> only, which the
  service's types declare as an optional string: a choice is its text, or \<open>None\<close>.
\<close>

type_synonym client = "request \<Rightarrow> pyexn + pystr option list"
type_synonym groq = "pystr \<Rightarrow> pyexn + client"

text \<open>
  What the attempt reports (\<open>st.error\<close> or \<open>st.success\<close>), and the steps inside the
  \<open>try\<close> block that were reached.
\<close>

datatype report = MissingCredential | InsufficientInput | GenerationError pyexn | Generated

datatype event = ClientCreated pystr | PromptBuilt pystr | ApiCall request

record outcome =
  state :: session_state
  report :: report
  events :: "event list"

definition system_message :: pystr where
  "system_message = lit (''You are an expert educational content creator who creates comprehensive, well-organized study guides. ''
     @ ''You excel at identifying key concepts, creating effective practice questions, and organizing information for optimal learning.'')"

definition make_request :: "pystr \<Rightarrow> options \<Rightarrow> request" where
  "make_request p opts =
     \<lparr>system_content = system_message, user_content = p, request_model = model opts,
      temperature = 0.7, max_tokens = 8000\<rparr>"

text \<open>
  One press of the generate button. \<open>not st.session_state.api_key\<close> holds for \<open>None\<close> and
  for the empty string. Every exception raised inside the \<open>try\<close> block is caught by the
  handler, which reports it and assigns nothing. Otherwise the content of the first
  choice is assigned to the stored guide as it is, text or \<open>None\<close>, and success is
  reported.
\<close>

definition generate :: "groq \<Rightarrow> session_state \<Rightarrow> pystr \<Rightarrow> options \<Rightarrow> outcome" where
  "generate Groq st study_material opts =
     (case api_key st of
        None \<Rightarrow> \<lparr>state = st, report = MissingCredential, events = []\<rparr>
      | Some k \<Rightarrow>
          if k = [] then \<lparr>state = st, report = MissingCredential, events = []\<rparr>
          else if study_material = [] \<or> length (strip study_material) < 50 then
            \<lparr>state = st, report = InsufficientInput, events = []\<rparr>
          else
            (case Groq k of
               Inl e \<Rightarrow> \<lparr>state = st, report = GenerationError e, events = []\<rparr>
             | Inr create \<Rightarrow>
                 (case prompt study_material opts of
                    Inl e \<Rightarrow>
                      \<lparr>state = st, report = GenerationError e, events = [ClientCreated k]\<rparr>
                  | Inr p \<Rightarrow>
                      (let req = make_request p opts;
                           evs = [ClientCreated k, PromptBuilt p, ApiCall req]
                       in case create req of
                            Inl e \<Rightarrow> \<lparr>state = st, report = GenerationError e, events = evs\<rparr>
                          | Inr choices \<Rightarrow>
                              (case choices of
                                 [] \<Rightarrow>
                                   \<lparr>state = st, report = GenerationError IndexError,
                                    events = evs\<rparr>
                               | c # _ \<Rightarrow>
                                   \<lparr>state = st\<lparr>study_guide := c\<rparr>,
                                    report = Generated, events = evs\<rparr>)))))"


section \<open>Download buttons\<close>

text \<open>
  A reading of \<open>datetime.now()\<close>, and \<open>strftime('%Y%m%d_%H%M%S')\<close> on it: every field
  as a zero-padded decimal number.
\<close>

record datetime =
  year :: nat
  month :: nat
  day :: nat
  hour :: nat
  minute :: nat
  second :: nat

definition zero_pad :: "nat \<Rightarrow> nat \<Rightarrow> pystr" where
  "zero_pad w n = replicate (w - length (digits n)) 48 @ digits n"

definition strftime :: "datetime \<Rightarrow> pystr" where
  "strftime t =
     zero_pad 4 (year t) @ zero_pad 2 (month t) @ zero_pad 2 (day t) @ lit ''_''
       @ zero_pad 2 (hour t) @ zero_pad 2 (minute t) @ zero_pad 2 (second t)"

record download =
  data :: pystr
  file_name :: pystr
  mime :: pystr

text \<open>
  The results section is rendered when the stored guide is truthy (neither \<open>None\<close> nor
  empty). Each of the two buttons evaluates \<open>datetime.now()\<close> for its own file name, so
  the clock is read twice: \<open>now1\<close> for the markdown button, \<open>now2\<close> for the text button.
\<close>

definition download_buttons ::
  "session_state \<Rightarrow> datetime \<Rightarrow> datetime \<Rightarrow> (download \<times> download) option" where
  "download_buttons st now1 now2 =
     (case study_guide st of
        None \<Rightarrow> None
      | Some g \<Rightarrow>
          if g = [] then None
          else Some
            (\<lparr>data = g, file_name = lit ''study_guide_'' @ strftime now1 @ lit ''.md'',
              mime = lit ''text/markdown''\<rparr>,
             \<lparr>data = g, file_name = lit ''study_guide_'' @ strftime now2 @ lit ''.txt'',
              mime = lit ''text/plain''\<rparr>))"


section \<open>The lines of a prompt\<close>

text \<open>
  In each of the four templates the material stands on the fourth line. The lines of a
  prompt outside the embedded material are its first three lines and the lines behind
  the lines of the material.
\<close>

definition template_lines :: "pystr \<Rightarrow> pystr \<Rightarrow> pystr list" where
  "template_lines study_material p =
     take 3 (split_lines p) @ drop (3 + length (split_lines study_material)) (split_lines p)"


section \<open>Template families\<close>

text \<open>
  The four branches of the prompt construction, the branch a guide type selects (the
  last one catches every other string), and for each family the texts of its template
  that tell it from the other three: the seven section headers of the comprehensive
  guide, the four points of the summary, the four points of the definitions guide, and
  the two instruction sentences of the practice questions.
\<close>

datatype family = Comprehensive | SummaryOnly | DefinitionsFocus | QuestionsFocus

definition family_of :: "pystr \<Rightarrow> family" where
  "family_of g =
     (if g = lit ''Comprehensive (All sections)'' then Comprehensive
      else if g = lit ''Summary Only'' then SummaryOnly
      else if g = lit ''Definitions Focus'' then DefinitionsFocus
      else QuestionsFocus)"

fun headers :: "family \<Rightarrow> string list" where
  "headers Comprehensive =
     [''**OVERVIEW**'', ''**KEY CONCEPTS**'', ''**IMPORTANT DEFINITIONS**'',
      ''**DETAILED NOTES**'', ''**PRACTICE QUESTIONS**'', ''**STUDY TIPS**'', ''**SUMMARY**'']"
| "headers SummaryOnly =
     [''Main topic overview'', ''Key points and concepts (organized logically)'',
      ''Important takeaways'', ''Quick review summary'']"
| "headers DefinitionsFocus =
     [''**TERM**'', ''Context of how it's used'', ''Examples where helpful'', ''Related terms'']"
| "headers QuestionsFocus =
     [''practice questions from the following study material.'',
      ''Include a variety of difficulty levels and ensure questions cover all major concepts.'']"


section \<open>The specification's wording\<close>

text \<open>
  The question-type phrase as the specification words it: the enabled labels, in the
  fixed order, separated by commas.
\<close>

definition enabled_labels :: "bool \<Rightarrow> bool \<Rightarrow> bool \<Rightarrow> pystr list" where
  "enabled_labels mcq short essay =
     map snd (filter fst
       [(mcq, lit ''multiple choice questions''),
        (short, lit ''short answer questions''),
        (essay, lit ''essay questions'')])"

fun comma_separated :: "pystr list \<Rightarrow> pystr" where
  "comma_separated [] = []"
| "comma_separated (x # xs) = x @ concat (map (\<lambda>y. lit '', '' @ y) xs)"


text \<open>
  The word count as the specification words it: the number of whitespace-delimited
  tokens, counted as the positions where a token starts (a non-whitespace character at
  the start of the text or behind a whitespace character); and the three sufficiency
  classes by their thresholds.
\<close>

fun count_tokens :: "bool \<Rightarrow> pystr \<Rightarrow> nat" where
  "count_tokens inside [] = 0"
| "count_tokens inside (c # cs) =
     (if isspace c then count_tokens False cs
      else (if inside then 0 else 1) + count_tokens True cs)"

definition token_count :: "pystr \<Rightarrow> nat" where
  "token_count s = count_tokens False s"

definition spec_sufficiency :: "nat \<Rightarrow> sufficiency" where
  "spec_sufficiency wc =
     (if 200 \<le> wc then Sufficient else if 100 \<le> wc then Short else TooShort)"


text \<open>
  The stamp \<open>YYYYMMDD_HHMMSS\<close> as the specification words it: four digits of the
  year, two each of month and day, an underscore, two each of hour, minute and second.
\<close>

definition stamp_spec :: "datetime \<Rightarrow> pystr" where
  "stamp_spec t =
     [48 + year t div 1000, 48 + year t div 100 mod 10, 48 + year t div 10 mod 10,
      48 + year t mod 10,
      48 + month t div 10, 48 + month t mod 10,
      48 + day t div 10, 48 + day t mod 10,
      95,
      48 + hour t div 10, 48 + hour t mod 10,
      48 + minute t div 10, 48 + minute t mod 10,
      48 + second t div 10, 48 + second t mod 10]"


section \<open>Example inputs\<close>

text \<open>Concrete sessions, options, materials and remote services, used to run the model.\<close>

definition questions_options :: options where
  "questions_options =
     \<lparr>model = lit ''llama-3.3-70b-versatile'', guide_type = lit ''Practice Questions Focus'',
      detail_level = lit ''Detailed'', num_questions = 5, include_mcq = True,
      include_short = False, include_essay = False\<rparr>"

definition unknown_options :: options where
  "unknown_options =
     \<lparr>model = lit ''mixtral-8x7b-32768'', guide_type = lit ''Flashcards'',
      detail_level = lit ''Extreme'', num_questions = 3, include_mcq = False,
      include_short = True, include_essay = False\<rparr>"

definition keyed_session :: session_state where
  "keyed_session = \<lparr>study_guide = Some (lit ''# Old guide''), api_key = Some (lit ''gsk_1'')\<rparr>"

definition other_session :: session_state where
  "other_session = \<lparr>study_guide = None, api_key = Some (lit ''gsk_2'')\<rparr>"

definition unkeyed_session :: session_state where
  "unkeyed_session = \<lparr>study_guide = Some (lit ''# Old guide''), api_key = None\<rparr>"

definition material_50 :: pystr where
  "material_50 = lit ''  Photosynthesis converts light energy into sugars!! ''"

definition material_49 :: pystr where
  "material_49 = lit ''  Photosynthesis converts light energy into sugars! ''"

definition groq_ok :: groq where
  "groq_ok = (\<lambda>k. Inr (\<lambda>req. Inr [Some (lit ''# New guide''), Some (lit ''# Second choice'')]))"



definition groq_down :: groq where
  "groq_down = (\<lambda>k. Inr (\<lambda>req. Inl (RemoteError (lit ''rate limit reached''))))"



definition noon :: datetime where
  "noon = \<lparr>year = 2024, month = 1, day = 1, hour = 12, minute = 0, second = 0\<rparr>"

definition noon_and_a_second :: datetime where
  "noon_and_a_second = \<lparr>year = 2024, month = 1, day = 1, hour = 12, minute = 0, second = 1\<rparr>"


definition essay_only_options :: options where
  "essay_only_options =
     \<lparr>model = lit ''llama-3.3-70b-versatile'', guide_type = lit ''Comprehensive (All sections)'',
      detail_level = lit ''Detailed'', num_questions = 10, include_mcq = False,
      include_short = False, include_essay = True\<rparr>"


definition summary_options :: options where
  "summary_options =
     \<lparr>model = lit ''llama-3.1-70b-versatile'', guide_type = lit ''Summary Only'',
      detail_level = lit ''Brief'', num_questions = 10, include_mcq = True,
      include_short = True, include_essay = False\<rparr>"

definition overview_material :: pystr where
  "overview_material =
     lit ''Notes on the **OVERVIEW** page: light reactions and the Calvin cycle.''"


section \<open>Facts about literals\<close>

lemma lit_Nil [simp]: "lit [] = []"
  by (simp add: lit_def)

lemma lit_append: "lit (a @ b) = lit a @ lit b"
  by (simp add: lit_def)

lemma lit_eq_iff [simp]: "lit a = lit b \<longleftrightarrow> a = b"
  unfolding lit_def by (rule inj_map_eq_map) (rule inj_of_char)

lemma lit_eq_Nil_iff [simp]: "lit a = [] \<longleftrightarrow> a = []"
  by (simp add: lit_def)

lemma Nil_eq_lit_iff [simp]: "[] = lit a \<longleftrightarrow> a = []"
  by (auto simp add: lit_def)


section \<open>The question-type phrase\<close>

text \<open>
  C2. For every combination of the three question-type flags, the phrase built by the
  program is the comma-separated concatenation of the enabled labels among
  "multiple choice questions", "short answer questions", "essay questions" in that
  order, and it is the literal "practice questions" when all three flags are false.
\<close>

theorem question_type_str_spec:
  "question_type_str mcq short essay =
     (if \<not> mcq \<and> \<not> short \<and> \<not> essay then lit ''practice questions''
      else comma_separated (enabled_labels mcq short essay))"
  by (cases mcq; cases short; cases essay)
     (simp_all add: question_type_str_def question_types_def enabled_labels_def)

theorem question_type_str_spec_witness:
  "question_type_str False False False = lit ''practice questions'' \<and>
   question_type_str False False True = lit ''essay questions'' \<and>
   question_type_str True True False
     = lit ''multiple choice questions'' @ lit '', '' @ lit ''short answer questions''"
  using question_type_str_spec [of False False False]
    question_type_str_spec [of False False True]
    question_type_str_spec [of True True False]
  by (simp add: enabled_labels_def)


section \<open>Generation attempts\<close>

lemma strip_material_50: "length (strip material_50) = 50"
  by (simp add: material_50_def strip_def lit_def isspace_def)

lemma strip_material_49: "length (strip material_49) = 49"
  by (simp add: material_49_def strip_def lit_def isspace_def)

lemma material_50_not_Nil: "material_50 \<noteq> []"
  by (simp add: material_50_def)

lemma prompt_questions_options:
  "prompt study_material questions_options =
     Inr (py_join nl (questions_lines study_material 5 (lit ''multiple choice questions'')
            True False False))"
  by (simp add: prompt_def questions_options_def question_type_str_def question_types_def)

text \<open>
  C10. For every guide-type string other than "Comprehensive (All sections)",
  "Summary Only" and "Definitions Focus", the prompt is the Practice Questions Focus
  template: the last branch catches everything else, and the construction returns a
  prompt (it raises nothing), whatever the detail level is.
\<close>

theorem prompt_catch_all:
  assumes "guide_type opts \<noteq> lit ''Comprehensive (All sections)''"
    and "guide_type opts \<noteq> lit ''Summary Only''"
    and "guide_type opts \<noteq> lit ''Definitions Focus''"
  shows "prompt study_material opts =
     Inr (py_join nl (questions_lines study_material (num_questions opts)
            (question_type_str (include_mcq opts) (include_short opts) (include_essay opts))
            (include_mcq opts) (include_short opts) (include_essay opts)))"
  using assms by (simp add: prompt_def)

theorem prompt_catch_all_witness:
  "guide_type unknown_options = lit ''Flashcards'' \<and>
   detail_mapping (detail_level unknown_options) = None \<and>
   prompt material_50 unknown_options =
     Inr (py_join nl (questions_lines material_50 3 (lit ''short answer questions'')
            False True False))"
  using prompt_catch_all [of unknown_options material_50]
  by (simp add: unknown_options_def question_type_str_def question_types_def
      detail_mapping_def)

text \<open>
  C7. A generation attempt with no credential set (\<open>None\<close> or the empty string) reports
  the missing credential, whatever the material is (so the length of the material is
  not looked at), reaches no step of the \<open>try\<close> block (no client, no prompt, no call to
  the service), and leaves the session state, the stored guide included, as it was.
\<close>

theorem missing_credential:
  assumes "api_key st = None \<or> api_key st = Some []"
  shows "generate Groq st study_material opts =
     \<lparr>state = st, report = MissingCredential, events = []\<rparr>"
  using assms by (auto simp add: generate_def)

theorem missing_credential_witness:
  "api_key unkeyed_session = None \<and>
   generate groq_ok unkeyed_session [] questions_options =
     \<lparr>state = unkeyed_session, report = MissingCredential, events = []\<rparr> \<and>
   generate groq_ok unkeyed_session material_50 questions_options =
     \<lparr>state = unkeyed_session, report = MissingCredential, events = []\<rparr>"
  using missing_credential [of unkeyed_session groq_ok "[]" questions_options]
    missing_credential [of unkeyed_session groq_ok material_50 questions_options]
  by (simp add: unkeyed_session_def)




text \<open>
  C4. The prompt is a function of the material and the options alone: two generation
  attempts on the same material and options that both reach the prompt construction
  build the same prompt, code point for code point, whatever the two session states
  (credential, stored guide) and the two remote services are.
\<close>

theorem prompt_deterministic:
  assumes "PromptBuilt p1 \<in> set (events (generate Groq1 st1 study_material opts))"
    and "PromptBuilt p2 \<in> set (events (generate Groq2 st2 study_material opts))"
  shows "p1 = p2 \<and> prompt study_material opts = Inr p1"
  using assms
  by (auto simp add: generate_def Let_def split: option.splits sum.splits list.splits if_splits)

theorem prompt_deterministic_witness:
  "PromptBuilt (py_join nl (questions_lines material_50 5 (lit ''multiple choice questions'')
       True False False))
     \<in> set (events (generate groq_ok keyed_session material_50 questions_options)) \<and>
   PromptBuilt (py_join nl (questions_lines material_50 5 (lit ''multiple choice questions'')
       True False False))
     \<in> set (events (generate groq_down other_session material_50 questions_options)) \<and>
   prompt material_50 questions_options =
     Inr (py_join nl (questions_lines material_50 5 (lit ''multiple choice questions'')
       True False False))"
  using prompt_deterministic
    [of "py_join nl (questions_lines material_50 5 (lit ''multiple choice questions'')
           True False False)"
        groq_ok keyed_session material_50 questions_options
        "py_join nl (questions_lines material_50 5 (lit ''multiple choice questions'')
           True False False)"
        groq_down other_session]
  by (simp add: generate_def Let_def keyed_session_def other_session_def groq_ok_def
      groq_down_def strip_material_50 material_50_not_Nil prompt_questions_options)

text \<open>
  C5, as the program has it. For a generation attempt with a credential set, the attempt
  reports insufficient input if and only if the trimmed material has fewer than 50
  characters (49 is rejected, 50 is not); the word count plays no part in it; and a
  rejected attempt reaches no step of the \<open>try\<close> block, so no prompt is built, and
  leaves the session state as it was. Without a credential the attempt reports the
  missing credential instead, whatever the length is.
\<close>

theorem insufficient_input_gate:
  assumes "api_key st = Some k" and "k \<noteq> []"
  shows "(report (generate Groq st study_material opts) = InsufficientInput \<longleftrightarrow>
            length (strip study_material) < 50) \<and>
         (length (strip study_material) < 50 \<longrightarrow>
            generate Groq st study_material opts =
              \<lparr>state = st, report = InsufficientInput, events = []\<rparr>)"
proof -
  have "study_material = [] \<Longrightarrow> length (strip study_material) < 50"
    by (simp add: strip_def)
  then show ?thesis
    using assms
    by (auto simp add: generate_def Let_def split: sum.splits list.splits)
qed

theorem insufficient_input_gate_witness:
  "length (strip material_49) = 49 \<and>
   generate groq_ok keyed_session material_49 questions_options =
     \<lparr>state = keyed_session, report = InsufficientInput, events = []\<rparr> \<and>
   length (strip material_50) = 50 \<and>
   report (generate groq_ok keyed_session material_50 questions_options) = Generated"
  using insufficient_input_gate
      [of keyed_session "lit ''gsk_1''" groq_ok material_49 questions_options]
    insufficient_input_gate
      [of keyed_session "lit ''gsk_1''" groq_ok material_50 questions_options]
  by (simp add: strip_material_49 strip_material_50 material_50_not_Nil generate_def Let_def
      keyed_session_def groq_ok_def prompt_questions_options)

text \<open>
  C5 as stated fails without a credential: the empty material has fewer than 50 trimmed
  characters, and the attempt reports the missing credential, not insufficient input.
\<close>

theorem insufficient_input_without_credential:
  "length (strip []) < 50 \<and>
   report (generate groq_ok unkeyed_session [] questions_options) = MissingCredential"
  by (simp add: strip_def generate_def unkeyed_session_def)


section \<open>Word count\<close>

lemma count_tokens_skip_space:
  "count_tokens False s = count_tokens False (dropWhile isspace s)"
  by (induction s) simp_all

lemma count_tokens_skip_word:
  "count_tokens True s = count_tokens False (dropWhile (\<lambda>x. \<not> isspace x) s)"
  by (induction s) simp_all

lemma length_split_ws: "length (split_ws s) = count_tokens False s"
proof (induction s rule: split_ws.induct)
  case (1 s)
  show ?case
  proof (cases "dropWhile isspace s")
    case Nil
    have "split_ws s = []"
      unfolding split_ws.simps [of s] Nil by simp
    moreover have "count_tokens False s = 0"
      using count_tokens_skip_space [of s] Nil by simp
    ultimately show ?thesis by simp
  next
    case (Cons c cs)
    then have c: "\<not> isspace c"
      by (simp add: dropWhile_eq_Cons_conv)
    have "length (split_ws s) = Suc (length (split_ws (dropWhile (\<lambda>x. \<not> isspace x) cs)))"
      unfolding split_ws.simps [of s] Cons by simp
    also have "\<dots> = Suc (count_tokens False (dropWhile (\<lambda>x. \<not> isspace x) cs))"
      using "1.IH" [OF Cons] by simp
    also have "\<dots> = Suc (count_tokens True cs)"
      by (simp add: count_tokens_skip_word [symmetric])
    also have "\<dots> = count_tokens False (c # cs)"
      using c by simp
    also have "\<dots> = count_tokens False s"
      using count_tokens_skip_space [of s] Cons by simp
    finally show ?thesis .
  qed
qed

lemma word_count_token_count: "word_count s = token_count s"
  by (simp add: word_count_def token_count_def length_split_ws)

lemma token_count_material_50: "token_count material_50 = 6"
  by (simp add: material_50_def token_count_def lit_def isspace_def)

text \<open>
  C6, as the program has it. For every non-empty material, the panel shows the number of
  whitespace-delimited tokens as the word count and classifies it: below 100 too short,
  from 100 to 199 short, from 200 on sufficient. For the empty material the panel shows
  nothing. The classification does not block generation: an attempt with a credential
  and at least 50 trimmed characters goes past both checks, whatever the word count is.
\<close>

theorem word_count_panel_spec:
  "(study_material \<noteq> [] \<longrightarrow>
      word_count_panel study_material =
        Some (token_count study_material, spec_sufficiency (token_count study_material))) \<and>
   (api_key st = Some k \<and> k \<noteq> [] \<and> 50 \<le> length (strip study_material) \<longrightarrow>
      report (generate Groq st study_material opts) \<noteq> InsufficientInput \<and>
      report (generate Groq st study_material opts) \<noteq> MissingCredential)"
proof -
  have "study_material = [] \<Longrightarrow> length (strip study_material) < 50"
    by (simp add: strip_def)
  then show ?thesis
    by (auto simp add: word_count_panel_def Let_def word_count_token_count
        spec_sufficiency_def generate_def split: sum.splits list.splits)
qed

theorem word_count_panel_spec_witness:
  "word_count_panel material_50 = Some (6, TooShort) \<and>
   length (strip material_50) = 50 \<and>
   report (generate groq_ok keyed_session material_50 questions_options) = Generated"
  using word_count_panel_spec
    [of material_50 keyed_session "lit ''gsk_1''" groq_ok questions_options]
  by (simp add: token_count_material_50 spec_sufficiency_def strip_material_50
      material_50_not_Nil generate_def Let_def keyed_session_def groq_ok_def
      prompt_questions_options)

text \<open>
  C6 as stated fails at the empty material: it has no token, which is below 100, and the
  panel shows no word count and no class for it.
\<close>

theorem word_count_panel_empty:
  "token_count [] = 0 \<and> word_count_panel [] = None"
  by (simp add: word_count_panel_def token_count_def)


section \<open>Download buttons and their file names\<close>

lemma digits_1: "n < 10 \<Longrightarrow> digits n = [48 + n]"
  by (subst digits.simps) simp

lemma digits_2: "10 \<le> n \<Longrightarrow> n < 100 \<Longrightarrow> digits n = [48 + n div 10, 48 + n mod 10]"
  by (subst digits.simps) (simp add: digits_1)

lemma digits_3:
  "100 \<le> n \<Longrightarrow> n < 1000 \<Longrightarrow> digits n = [48 + n div 100, 48 + n div 10 mod 10, 48 + n mod 10]"
  by (subst digits.simps) (simp add: digits_2 div_mult2_eq [symmetric])

lemma digits_4:
  "1000 \<le> n \<Longrightarrow> n < 10000 \<Longrightarrow>
   digits n = [48 + n div 1000, 48 + n div 100 mod 10, 48 + n div 10 mod 10, 48 + n mod 10]"
  by (subst digits.simps) (simp add: digits_3 div_mult2_eq [symmetric])

lemma zero_pad_2: "n < 100 \<Longrightarrow> zero_pad 2 n = [48 + n div 10, 48 + n mod 10]"
  by (cases "n < 10") (simp_all add: zero_pad_def digits_1 digits_2)

lemma zero_pad_4:
  "n < 10000 \<Longrightarrow>
   zero_pad 4 n = [48 + n div 1000, 48 + n div 100 mod 10, 48 + n div 10 mod 10, 48 + n mod 10]"
proof -
  assume n: "n < 10000"
  consider "n < 10" | "10 \<le> n" "n < 100" | "100 \<le> n" "n < 1000" | "1000 \<le> n"
    by linarith
  then show ?thesis
  proof cases
    case 1
    then show ?thesis by (simp add: zero_pad_def digits_1 numeral_3_eq_3)
  next
    case 2
    then show ?thesis by (simp add: zero_pad_def digits_2 numeral_2_eq_2)
  next
    case 3
    then show ?thesis by (simp add: zero_pad_def digits_3)
  next
    case 4
    then show ?thesis using n by (simp add: zero_pad_def digits_4)
  qed
qed

lemma strftime_stamp_spec:
  assumes "year t < 10000" and "month t < 100" and "day t < 100"
    and "hour t < 100" and "minute t < 100" and "second t < 100"
  shows "strftime t = stamp_spec t"
  using assms by (simp add: strftime_def stamp_spec_def zero_pad_2 zero_pad_4 lit_def)

lemma strftime_noon: "strftime noon = lit ''20240101_120000''"
  by (simp add: strftime_stamp_spec noon_def stamp_spec_def lit_def)

lemma strftime_noon_and_a_second: "strftime noon_and_a_second = lit ''20240101_120001''"
  by (simp add: strftime_stamp_spec noon_and_a_second_def stamp_spec_def lit_def)

text \<open>
  C9, as the program has it. For every non-empty stored guide the two download buttons
  carry the same data, the stored guide itself, with the media types text/markdown and
  text/plain. The file names are \<open>study_guide_\<close>, a stamp and the suffix \<open>.md\<close> or
  \<open>.txt\<close>; each stamp is the reading of the clock taken when that button is rendered,
  in the form YYYYMMDD_HHMMSS (for a year of at most four digits), so the two names
  differ only in the suffix when the two readings agree. No time of generation is
  recorded, and nothing is offered for an empty or absent guide.
\<close>

theorem download_buttons_spec:
  assumes "study_guide st = Some g" and "g \<noteq> []"
  shows "\<exists>md txt.
     download_buttons st now1 now2 = Some (md, txt) \<and>
     data md = g \<and> data txt = g \<and>
     mime md = lit ''text/markdown'' \<and> mime txt = lit ''text/plain'' \<and>
     file_name md = lit ''study_guide_'' @ strftime now1 @ lit ''.md'' \<and>
     file_name txt = lit ''study_guide_'' @ strftime now2 @ lit ''.txt'' \<and>
     (year now1 < 10000 \<and> month now1 < 100 \<and> day now1 < 100 \<and>
      hour now1 < 100 \<and> minute now1 < 100 \<and> second now1 < 100 \<longrightarrow>
        strftime now1 = stamp_spec now1) \<and>
     (year now2 < 10000 \<and> month now2 < 100 \<and> day now2 < 100 \<and>
      hour now2 < 100 \<and> minute now2 < 100 \<and> second now2 < 100 \<longrightarrow>
        strftime now2 = stamp_spec now2)"
  using assms by (simp add: download_buttons_def strftime_stamp_spec)

theorem download_buttons_spec_witness:
  "download_buttons keyed_session noon noon =
     Some (\<lparr>data = lit ''# Old guide'', file_name = lit ''study_guide_20240101_120000.md'',
             mime = lit ''text/markdown''\<rparr>,
           \<lparr>data = lit ''# Old guide'', file_name = lit ''study_guide_20240101_120000.txt'',
             mime = lit ''text/plain''\<rparr>)"
  using download_buttons_spec [of keyed_session "lit ''# Old guide''" noon noon]
  by (simp add: keyed_session_def download_buttons_def strftime_noon lit_append [symmetric])

text \<open>
  C9 as stated fails when the clock moves between the two buttons: the names then differ
  in the stamp as well, and the stamps are readings at rendering, not one time of
  generation.
\<close>

theorem download_buttons_two_readings:
  "download_buttons keyed_session noon noon_and_a_second =
     Some (\<lparr>data = lit ''# Old guide'', file_name = lit ''study_guide_20240101_120000.md'',
             mime = lit ''text/markdown''\<rparr>,
           \<lparr>data = lit ''# Old guide'', file_name = lit ''study_guide_20240101_120001.txt'',
             mime = lit ''text/plain''\<rparr>)"
  by (simp add: keyed_session_def download_buttons_def strftime_noon
      strftime_noon_and_a_second lit_append [symmetric])


section \<open>Question-type bullet lines\<close>

lemma split_lines_not_Nil [simp]: "split_lines s \<noteq> []"
  by (induction s) (auto split: list.splits)

lemma split_lines_append_nl: "split_lines (a @ 10 # b) = split_lines a @ split_lines b"
proof (induction a)
  case Nil
  show ?case by simp
next
  case (Cons c a)
  show ?case
  proof (cases "split_lines a")
    case Nil
    then show ?thesis by simp
  next
    case (Cons l ls)
    with Cons.IH show ?thesis by simp
  qed
qed

lemma split_lines_py_join:
  "ls \<noteq> [] \<Longrightarrow> split_lines (py_join nl ls) = concat (map split_lines ls)"
  unfolding nl_def
  by (induction ls rule: induct_list012) (simp_all add: split_lines_append_nl)

lemma split_lines_no_nl: "10 \<notin> set s \<Longrightarrow> split_lines s = [s]"
  by (induction s) auto

lemma of_char_nl: "of_char (CHR 0x0A) = (10::nat)"
  by simp

lemma nl_in_lit_iff: "10 \<in> set (lit s) \<longleftrightarrow> CHR 0x0A \<in> set s"
  unfolding lit_def set_map image_iff of_char_nl [symmetric] of_char_eq_iff by blast

lemma nl_notin_digits: "10 \<notin> set (digits n)"
proof (induction n rule: digits.induct)
  case (1 n)
  show ?case
  proof (cases "n < 10")
    case True
    then show ?thesis by (subst digits.simps) simp
  next
    case False
    have "48 + n mod 10 \<noteq> 10" by simp
    with False "1.IH" show ?thesis by (subst digits.simps) simp
  qed
qed

lemma nl_notin_str_int: "10 \<notin> set (str_int n)"
  by (simp add: str_int_def nl_notin_digits)

lemma nl_notin_question_type_str: "10 \<notin> set (question_type_str mcq short essay)"
  by (cases mcq; cases short; cases essay)
     (simp_all add: question_type_str_def question_types_def nl_in_lit_iff)

lemma questions_split:
  "split_lines (py_join nl (questions_lines study_material n
       (question_type_str mcq short essay) mcq short essay)) =
   take 3 (questions_lines study_material n (question_type_str mcq short essay) mcq short essay)
   @ split_lines study_material
   @ drop 4 (questions_lines study_material n (question_type_str mcq short essay) mcq short essay)"
  (is "split_lines (py_join nl ?L) = _")
proof -
  have "?L \<noteq> []"
    by (simp add: questions_lines_def)
  then have "split_lines (py_join nl ?L) = concat (map split_lines ?L)"
    by (rule split_lines_py_join)
  also have "\<dots> = take 3 ?L @ split_lines study_material @ drop 4 ?L"
    by (simp add: questions_lines_def split_lines_no_nl nl_in_lit_iff
        nl_notin_str_int nl_notin_question_type_str)
  finally show ?thesis .
qed


lemma template_lines_eq:
  assumes "split_lines p = pre @ split_lines study_material @ post" and "length pre = 3"
  shows "template_lines study_material p = pre @ post"
  using assms by (simp add: template_lines_def)

lemma nl_in_capitalize_iff: "10 \<in> set (capitalize s) \<longleftrightarrow> 10 \<in> set s"
proof -
  have "upper_ascii c = 10 \<longleftrightarrow> c = 10" for c
    by (auto simp add: upper_ascii_def)
  moreover have "lower_ascii c = 10 \<longleftrightarrow> c = 10" for c
    by (auto simp add: lower_ascii_def)
  ultimately show ?thesis
    by (cases s) (auto simp add: image_iff)
qed

lemma detail_mapping_cases:
  assumes "detail_mapping x = Some d"
  shows "d = lit ''concise and to-the-point'' \<or> d = lit ''balanced with good coverage'' \<or>
         d = lit ''comprehensive and thorough'' \<or>
         d = lit ''extremely detailed with in-depth explanations''"
  using assms by (auto simp add: detail_mapping_def split: if_splits)

lemma nl_notin_detail:
  assumes "detail_mapping x = Some d"
  shows "10 \<notin> set d"
  using detail_mapping_cases [OF assms] by (auto simp add: nl_in_lit_iff)

lemma comprehensive_split:
  assumes "detail_mapping x = Some d"
  shows "split_lines (py_join nl (comprehensive_lines study_material d n
       (question_type_str mcq short essay) mcq short essay)) =
   take 3 (comprehensive_lines study_material d n (question_type_str mcq short essay)
             mcq short essay)
   @ split_lines study_material
   @ drop 4 (comprehensive_lines study_material d n (question_type_str mcq short essay)
               mcq short essay)"
  (is "split_lines (py_join nl ?L) = _")
proof -
  have "?L \<noteq> []"
    by (simp add: comprehensive_lines_def)
  then have "split_lines (py_join nl ?L) = concat (map split_lines ?L)"
    by (rule split_lines_py_join)
  also have "\<dots> = take 3 ?L @ split_lines study_material @ drop 4 ?L"
    using nl_notin_detail [OF assms]
    by (simp add: comprehensive_lines_def split_lines_no_nl nl_in_lit_iff
        nl_notin_str_int nl_notin_question_type_str nl_in_capitalize_iff)
  finally show ?thesis .
qed

lemma lit_Cons_eq_append:
  "lit (c # s) = lit (c' # s') @ x \<longleftrightarrow> c = c' \<and> lit s = lit s' @ x"
  by (simp add: lit_def)

lemma questions_template_lines:
  "template_lines study_material (py_join nl (questions_lines study_material n
       (question_type_str mcq short essay) mcq short essay)) =
   take 3 (questions_lines study_material n (question_type_str mcq short essay) mcq short essay)
   @ drop 4 (questions_lines study_material n (question_type_str mcq short essay) mcq short essay)"
  by (rule template_lines_eq [OF questions_split]) (simp add: questions_lines_def)

lemma comprehensive_template_lines:
  assumes "detail_mapping x = Some d"
  shows "template_lines study_material (py_join nl (comprehensive_lines study_material d n
       (question_type_str mcq short essay) mcq short essay)) =
   take 3 (comprehensive_lines study_material d n (question_type_str mcq short essay)
             mcq short essay)
   @ drop 4 (comprehensive_lines study_material d n (question_type_str mcq short essay)
               mcq short essay)"
  by (rule template_lines_eq [OF comprehensive_split [OF assms]])
     (simp add: comprehensive_lines_def)

lemma questions_slots:
  assumes "p = py_join nl (questions_lines study_material n
       (question_type_str mcq short essay) mcq short essay)"
  shows "take 4 (drop 4 (template_lines study_material p)) =
       [lit ''Generate '' @ question_type_str mcq short essay @ lit '':'',
        if mcq
        then lit ''- Multiple choice questions with 4 options, correct answer, and brief explanation''
        else [],
        if short then lit ''- Short answer questions with sample answers'' else [],
        if essay then lit ''- Essay questions with key points that should be covered'' else []]"
    and "lit ''- Multiple choice questions with 4 options, correct answer, and brief explanation''
           \<in> set (template_lines study_material p) \<longleftrightarrow> mcq"
    and "lit ''- Short answer questions with sample answers''
           \<in> set (template_lines study_material p) \<longleftrightarrow> short"
    and "lit ''- Essay questions with key points that should be covered''
           \<in> set (template_lines study_material p) \<longleftrightarrow> essay"
  unfolding assms questions_template_lines
  by (simp_all add: questions_lines_def lit_Cons_eq_append)

lemma comprehensive_slots:
  assumes "detail_mapping x = Some d"
    and "p = py_join nl (comprehensive_lines study_material d n
       (question_type_str mcq short essay) mcq short essay)"
  shows "take 4 (drop 14 (template_lines study_material p)) =
       [lit ''5. **PRACTICE QUESTIONS** - Create '' @ str_int n @ lit '' ''
          @ question_type_str mcq short essay @ lit '':'',
        if mcq then lit ''   - Multiple choice questions (with 4 options and correct answer)''
        else [],
        if short then lit ''   - Short answer questions'' else [],
        if essay then lit ''   - Essay questions with key points to cover'' else []]"
    and "lit ''   - Multiple choice questions (with 4 options and correct answer)''
           \<in> set (template_lines study_material p) \<longleftrightarrow> mcq"
    and "lit ''   - Short answer questions''
           \<in> set (template_lines study_material p) \<longleftrightarrow> short"
    and "lit ''   - Essay questions with key points to cover''
           \<in> set (template_lines study_material p) \<longleftrightarrow> essay"
  unfolding assms(2) comprehensive_template_lines [OF assms(1)]
  by (simp_all add: comprehensive_lines_def lit_Cons_eq_append)


lemma str_int_10: "str_int 10 = lit ''10''"
  by (simp add: str_int_def digits.simps lit_def)

lemma prompt_essay_only_options:
  "prompt study_material essay_only_options =
     Inr (py_join nl (comprehensive_lines study_material (lit ''comprehensive and thorough'') 10
            (lit ''essay questions'') False False True))"
  by (simp add: prompt_def essay_only_options_def question_type_str_def question_types_def
      detail_mapping_def)

lemma nl_notin_material_50: "10 \<notin> set material_50"
  by (simp add: material_50_def nl_in_lit_iff)

text \<open>
  C1, as the program has it. In the Comprehensive and the Practice Questions Focus
  templates the three lines behind the header line of the question section are the
  slots of the three question types, in the order multiple choice, short answer, essay:
  the slot of an enabled type is its bullet line, the slot of a disabled type is an
  empty line. The bullet line of a type is one of the lines of the prompt outside the
  embedded material exactly when the type is enabled. With only essay questions enabled
  the lines hold the essay bullet and neither of the other two bullets.
\<close>

theorem question_type_slots:
  assumes "prompt study_material opts = Inr p"
  shows
    "(guide_type opts = lit ''Comprehensive (All sections)'' \<longrightarrow>
        take 4 (drop 14 (template_lines study_material p)) =
          [lit ''5. **PRACTICE QUESTIONS** - Create '' @ str_int (num_questions opts) @ lit '' ''
             @ question_type_str (include_mcq opts) (include_short opts) (include_essay opts)
             @ lit '':'',
           if include_mcq opts
           then lit ''   - Multiple choice questions (with 4 options and correct answer)''
           else [],
           if include_short opts then lit ''   - Short answer questions'' else [],
           if include_essay opts then lit ''   - Essay questions with key points to cover''
           else []] \<and>
        (lit ''   - Multiple choice questions (with 4 options and correct answer)''
           \<in> set (template_lines study_material p) \<longleftrightarrow> include_mcq opts) \<and>
        (lit ''   - Short answer questions''
           \<in> set (template_lines study_material p) \<longleftrightarrow> include_short opts) \<and>
        (lit ''   - Essay questions with key points to cover''
           \<in> set (template_lines study_material p) \<longleftrightarrow> include_essay opts)) \<and>
     (guide_type opts \<noteq> lit ''Comprehensive (All sections)'' \<and>
      guide_type opts \<noteq> lit ''Summary Only'' \<and>
      guide_type opts \<noteq> lit ''Definitions Focus'' \<longrightarrow>
        take 4 (drop 4 (template_lines study_material p)) =
          [lit ''Generate ''
             @ question_type_str (include_mcq opts) (include_short opts) (include_essay opts)
             @ lit '':'',
           if include_mcq opts
           then lit ''- Multiple choice questions with 4 options, correct answer, and brief explanation''
           else [],
           if include_short opts then lit ''- Short answer questions with sample answers''
           else [],
           if include_essay opts
           then lit ''- Essay questions with key points that should be covered''
           else []] \<and>
        (lit ''- Multiple choice questions with 4 options, correct answer, and brief explanation''
           \<in> set (template_lines study_material p) \<longleftrightarrow> include_mcq opts) \<and>
        (lit ''- Short answer questions with sample answers''
           \<in> set (template_lines study_material p) \<longleftrightarrow> include_short opts) \<and>
        (lit ''- Essay questions with key points that should be covered''
           \<in> set (template_lines study_material p) \<longleftrightarrow> include_essay opts))"
proof (intro conjI impI)
  assume g: "guide_type opts = lit ''Comprehensive (All sections)''"
  with assms obtain d where d: "detail_mapping (detail_level opts) = Some d"
    and p: "p = py_join nl (comprehensive_lines study_material d (num_questions opts)
          (question_type_str (include_mcq opts) (include_short opts) (include_essay opts))
          (include_mcq opts) (include_short opts) (include_essay opts))"
    by (auto simp add: prompt_def split: option.splits)
  note slots = comprehensive_slots [OF d p]
  show "take 4 (drop 14 (template_lines study_material p)) =
          [lit ''5. **PRACTICE QUESTIONS** - Create '' @ str_int (num_questions opts) @ lit '' ''
             @ question_type_str (include_mcq opts) (include_short opts) (include_essay opts)
             @ lit '':'',
           if include_mcq opts
           then lit ''   - Multiple choice questions (with 4 options and correct answer)''
           else [],
           if include_short opts then lit ''   - Short answer questions'' else [],
           if include_essay opts then lit ''   - Essay questions with key points to cover''
           else []]"
    by (rule slots(1))
  show "lit ''   - Multiple choice questions (with 4 options and correct answer)''
           \<in> set (template_lines study_material p) \<longleftrightarrow> include_mcq opts"
    by (rule slots(2))
  show "lit ''   - Short answer questions''
           \<in> set (template_lines study_material p) \<longleftrightarrow> include_short opts"
    by (rule slots(3))
  show "lit ''   - Essay questions with key points to cover''
           \<in> set (template_lines study_material p) \<longleftrightarrow> include_essay opts"
    by (rule slots(4))
next
  assume g: "guide_type opts \<noteq> lit ''Comprehensive (All sections)'' \<and>
      guide_type opts \<noteq> lit ''Summary Only'' \<and>
      guide_type opts \<noteq> lit ''Definitions Focus''"
  with assms have p: "p = py_join nl (questions_lines study_material (num_questions opts)
          (question_type_str (include_mcq opts) (include_short opts) (include_essay opts))
          (include_mcq opts) (include_short opts) (include_essay opts))"
    by (auto simp add: prompt_def)
  note slots = questions_slots [OF p]
  show "take 4 (drop 4 (template_lines study_material p)) =
          [lit ''Generate ''
             @ question_type_str (include_mcq opts) (include_short opts) (include_essay opts)
             @ lit '':'',
           if include_mcq opts
           then lit ''- Multiple choice questions with 4 options, correct answer, and brief explanation''
           else [],
           if include_short opts then lit ''- Short answer questions with sample answers''
           else [],
           if include_essay opts
           then lit ''- Essay questions with key points that should be covered''
           else []]"
    by (rule slots(1))
  show "lit ''- Multiple choice questions with 4 options, correct answer, and brief explanation''
           \<in> set (template_lines study_material p) \<longleftrightarrow> include_mcq opts"
    by (rule slots(2))
  show "lit ''- Short answer questions with sample answers''
           \<in> set (template_lines study_material p) \<longleftrightarrow> include_short opts"
    by (rule slots(3))
  show "lit ''- Essay questions with key points that should be covered''
           \<in> set (template_lines study_material p) \<longleftrightarrow> include_essay opts"
    by (rule slots(4))
qed

theorem question_type_slots_witness:
  "take 4 (drop 14 (template_lines material_50
      (py_join nl (comprehensive_lines material_50 (lit ''comprehensive and thorough'') 10
            (lit ''essay questions'') False False True)))) =
     [lit ''5. **PRACTICE QUESTIONS** - Create 10 essay questions:'', [], [],
      lit ''   - Essay questions with key points to cover''] \<and>
   lit ''   - Essay questions with key points to cover''
     \<in> set (template_lines material_50
      (py_join nl (comprehensive_lines material_50 (lit ''comprehensive and thorough'') 10
            (lit ''essay questions'') False False True))) \<and>
   lit ''   - Short answer questions''
     \<notin> set (template_lines material_50
      (py_join nl (comprehensive_lines material_50 (lit ''comprehensive and thorough'') 10
            (lit ''essay questions'') False False True))) \<and>
   lit ''   - Multiple choice questions (with 4 options and correct answer)''
     \<notin> set (template_lines material_50
      (py_join nl (comprehensive_lines material_50 (lit ''comprehensive and thorough'') 10
            (lit ''essay questions'') False False True)))"
  using question_type_slots [OF prompt_essay_only_options [of material_50]]
  by (simp add: essay_only_options_def question_type_str_def question_types_def str_int_10
      lit_append [symmetric])

text \<open>
  C1 as stated fails: the line of a disabled type is not removed, it is left empty. With
  only essay questions enabled, the header line of the question section is followed by
  two empty lines, then the essay bullet, then the empty line that ends the section.
\<close>

theorem blank_lines_for_disabled_types:
  "(case prompt material_50 essay_only_options of
      Inl e \<Rightarrow> []
    | Inr p \<Rightarrow> take 5 (drop 15 (split_lines p))) =
     [lit ''5. **PRACTICE QUESTIONS** - Create 10 essay questions:'', [], [],
      lit ''   - Essay questions with key points to cover'', []]"
proof -
  have d: "detail_mapping (lit ''Detailed'') = Some (lit ''comprehensive and thorough'')"
    by (simp add: detail_mapping_def)
  have q: "question_type_str False False True = lit ''essay questions''"
    by (simp add: question_type_str_def question_types_def)
  show ?thesis
    using comprehensive_split [OF d, of material_50 10 False False True]
    by (simp add: prompt_essay_only_options q comprehensive_lines_def split_lines_no_nl
        nl_notin_material_50 str_int_10 lit_append [symmetric])
qed


section \<open>Headers of the template families\<close>

lemma sublist_map_inj:
  assumes "inj f"
  shows "sublist (map f a) (map f b) \<longleftrightarrow> sublist a b"
proof
  assume "sublist (map f a) (map f b)"
  then obtain ps ss where "map f b = ps @ map f a @ ss"
    by (auto simp add: sublist_def)
  then obtain b1 b2 b3 where b: "b = b1 @ b2 @ b3" and "map f b2 = map f a"
    by (metis map_eq_append_conv)
  then have "b2 = a"
    using inj_map_eq_map [OF assms] by blast
  with b show "sublist a b"
    by (auto simp add: sublist_def)
next
  assume "sublist a b"
  then show "sublist (map f a) (map f b)"
    by (rule map_mono_sublist)
qed

lemma sublist_lit [simp]: "sublist (lit a) (lit b) \<longleftrightarrow> sublist a b"
  unfolding lit_def by (rule sublist_map_inj) (rule inj_of_char)

lemma sublist_Cons_other:
  assumes "x \<notin> set h" and "h \<noteq> []"
  shows "sublist h (x # ys) \<longleftrightarrow> sublist h ys"
proof -
  from assms have "\<not> prefix h (x # ys)"
    by (cases h) auto
  then show ?thesis
    by (simp add: sublist_Cons_right)
qed

lemma sublist_skip:
  assumes "set h \<inter> set v = {}" and "h \<noteq> []"
  shows "sublist h (v @ b) \<longleftrightarrow> sublist h b"
  using assms by (induction v) (auto simp add: sublist_Cons_other)

lemma sublist_append_sep:
  assumes "x \<notin> set h" and "h \<noteq> []"
  shows "sublist h (a @ x # b) \<longleftrightarrow> sublist h a \<or> sublist h b"
proof
  assume "sublist h (a @ x # b)"
  then consider "sublist h a" | "sublist h (x # b)"
    | h1 h2 where "h = h1 @ h2" and "suffix h1 a" and "prefix h2 (x # b)"
    by (auto simp add: sublist_append)
  then show "sublist h a \<or> sublist h b"
  proof cases
    case 1
    then show ?thesis by simp
  next
    case 2
    then show ?thesis using assms by (simp add: sublist_Cons_other)
  next
    case 3
    show ?thesis
    proof (cases h2)
      case Nil
      with 3 show ?thesis by auto
    next
      case (Cons y ys)
      with 3 have "y = x" by simp
      with Cons 3 assms show ?thesis by simp
    qed
  qed
next
  assume "sublist h a \<or> sublist h b"
  then show "sublist h (a @ x # b)"
  proof
    assume "sublist h a"
    then show ?thesis by (auto simp add: sublist_append)
  next
    assume "sublist h b"
    then have "sublist h (x # b)" by (simp add: sublist_Cons_right)
    then show ?thesis by (auto simp add: sublist_append)
  qed
qed

lemma sublist_mid:
  assumes "set h \<inter> set v = {}" and "v \<noteq> []" and "h \<noteq> []"
  shows "sublist h (a @ v @ b) \<longleftrightarrow> sublist h a \<or> sublist h b"
proof (cases v)
  case Nil
  with assms show ?thesis by simp
next
  case (Cons x v')
  with assms have "x \<notin> set h" and "set h \<inter> set v' = {}"
    by auto
  then show ?thesis
    using assms(3) Cons by (simp add: sublist_append_sep sublist_skip)
qed

lemma sublist_py_join:
  assumes "10 \<notin> set h" and "h \<noteq> []"
  shows "sublist h (py_join nl ls) \<longleftrightarrow> (\<exists>l\<in>set ls. sublist h l)"
  unfolding nl_def using assms
  by (induction ls rule: induct_list012) (simp_all add: sublist_append_sep)

lemma lit_Cons: "lit (c # s) = of_char c # lit s"
  by (simp add: lit_def)

lemma map_lower_ascii_lit:
  assumes "\<forall>c\<in>set s. \<not> (65 \<le> (of_char c :: nat) \<and> (of_char c :: nat) \<le> 90)"
  shows "map lower_ascii (lit s) = lit s"
  using assms by (induction s) (simp_all add: lit_def lower_ascii_def)

lemma capitalize_lit:
  "capitalize (lit (c # s)) = upper_ascii (of_char c) # map lower_ascii (lit s)"
  by (simp add: lit_def)

lemma capitalize_phrases:
  "capitalize (lit ''concise and to-the-point'') = lit ''Concise and to-the-point''"
  "capitalize (lit ''balanced with good coverage'') = lit ''Balanced with good coverage''"
  "capitalize (lit ''comprehensive and thorough'') = lit ''Comprehensive and thorough''"
  "capitalize (lit ''extremely detailed with in-depth explanations'')
     = lit ''Extremely detailed with in-depth explanations''"
  by (simp_all add: capitalize_lit map_lower_ascii_lit upper_ascii_def
      lit_Cons [of "CHR ''C''"] lit_Cons [of "CHR ''B''"] lit_Cons [of "CHR ''E''"])

lemma set_digits: "set (digits n) \<subseteq> set (lit ''0123456789'')"
proof (induction n rule: digits.induct)
  case (1 n)
  show ?case
  proof (cases "n < 10")
    case True
    then have "n \<in> {0, 1, 2, 3, 4, 5, 6, 7, 8, 9}" by auto
    then show ?thesis
      by (subst digits.simps) (auto simp add: lit_def)
  next
    case False
    have "n mod 10 \<in> {0, 1, 2, 3, 4, 5, 6, 7, 8, 9}"
      using mod_less_divisor [of 10 n] by (auto simp del: mod_less_divisor)
    then have "48 + n mod 10 \<in> set (lit ''0123456789'')"
      by (auto simp add: lit_def)
    with False "1.IH" show ?thesis
      by (subst digits.simps) simp
  qed
qed

lemma digits_not_Nil: "digits n \<noteq> []"
  by (subst digits.simps) simp

lemma set_str_int: "set (str_int n) \<subseteq> set (lit ''-0123456789'')"
proof -
  have "set (lit ''0123456789'') \<subseteq> set (lit ''-0123456789'')"
    by (simp add: lit_Cons [of "CHR ''-''"] subset_insertI)
  with set_digits have d: "set (digits k) \<subseteq> set (lit ''-0123456789'')" for k
    by (rule subset_trans)
  have m: "45 \<in> set (lit ''-0123456789'')"
    by (simp add: lit_Cons [of "CHR ''-''"])
  show ?thesis
    using d m by (simp add: str_int_def)
qed

lemma str_int_not_Nil: "str_int n \<noteq> []"
  by (simp add: str_int_def digits_not_Nil)

lemma set_lit: "set (lit s) = of_char ` set s"
  by (simp add: lit_def)

lemma sublist_lit_str_int:
  assumes "\<forall>c\<in>set h. c \<notin> set ''-0123456789''" and "h \<noteq> []"
  shows "sublist (lit h) (lit a @ str_int n @ b) \<longleftrightarrow> sublist h a \<or> sublist (lit h) b"
proof -
  from assms(1) have "set h \<inter> set ''-0123456789'' = {}"
    by blast
  then have "of_char ` (set h \<inter> set ''-0123456789'') = ({} :: nat set)"
    by (simp only: image_empty)
  then have "set (lit h) \<inter> set (lit ''-0123456789'') = {}"
    unfolding set_lit by (simp only: image_Int [OF inj_of_char])
  with set_str_int have disjoint: "set (lit h) \<inter> set (str_int n) = {}"
    by blast
  have "lit h \<noteq> []"
    using assms(2) by (simp only: lit_eq_Nil_iff not_False_eq_True)
  with disjoint str_int_not_Nil
  have "sublist (lit h) (lit a @ str_int n @ b) \<longleftrightarrow> sublist (lit h) (lit a) \<or> sublist (lit h) b"
    by (rule sublist_mid)
  then show ?thesis
    by (simp only: sublist_lit)
qed

lemma header_shape:
  "\<forall>h\<in>set (headers Comprehensive @ headers SummaryOnly @ headers DefinitionsFocus
       @ headers QuestionsFocus).
     h \<noteq> [] \<and> CHR 0x0A \<notin> set h \<and> (\<forall>c\<in>set h. c \<notin> set ''-0123456789'')"
  by code_simp

lemma header_shape_family:
  assumes "h \<in> set (headers f)"
  shows "h \<noteq> []" and "10 \<notin> set (lit h)" and "\<forall>c\<in>set h. c \<notin> set ''-0123456789''"
proof -
  from assms have "h \<in> set (headers Comprehensive @ headers SummaryOnly
      @ headers DefinitionsFocus @ headers QuestionsFocus)"
    by (cases f) (auto simp only: set_append)
  with header_shape
  have "h \<noteq> [] \<and> CHR 0x0A \<notin> set h \<and> (\<forall>c\<in>set h. c \<notin> set ''-0123456789'')"
    by (rule bspec)
  then show "h \<noteq> []" and "10 \<notin> set (lit h)" and "\<forall>c\<in>set h. c \<notin> set ''-0123456789''"
    by (simp_all add: nl_in_lit_iff)
qed

lemma comprehensive_absent:
  "\<forall>h\<in>set (headers SummaryOnly @ headers DefinitionsFocus @ headers QuestionsFocus).
     \<not> sublist h ''Create a concise and to-the-point study guide from the following material.'' \<and>
     \<not> sublist h ''Create a balanced with good coverage study guide from the following material.'' \<and>
     \<not> sublist h ''Create a comprehensive and thorough study guide from the following material.'' \<and>
     \<not> sublist h ''Create a extremely detailed with in-depth explanations study guide from the following material.'' \<and>
     \<not> sublist h ''STUDY MATERIAL:'' \<and>
     \<not> sublist h ''Generate a comprehensive study guide with these sections:'' \<and>
     \<not> sublist h ''1. **OVERVIEW** - Brief summary of the main topic and its importance'' \<and>
     \<not> sublist h ''2. **KEY CONCEPTS** - Main ideas explained clearly with examples where relevant'' \<and>
     \<not> sublist h ''3. **IMPORTANT DEFINITIONS** - Essential terms with clear, concise definitions'' \<and>
     \<not> sublist h ''4. **DETAILED NOTES** - Concise and to-the-point explanation of the content, organized by subtopics'' \<and>
     \<not> sublist h ''4. **DETAILED NOTES** - Balanced with good coverage explanation of the content, organized by subtopics'' \<and>
     \<not> sublist h ''4. **DETAILED NOTES** - Comprehensive and thorough explanation of the content, organized by subtopics'' \<and>
     \<not> sublist h ''4. **DETAILED NOTES** - Extremely detailed with in-depth explanations explanation of the content, organized by subtopics'' \<and>
     \<not> sublist h ''5. **PRACTICE QUESTIONS** - Create '' \<and>
     \<not> sublist h '' multiple choice questions, short answer questions, essay questions:'' \<and>
     \<not> sublist h '' multiple choice questions, short answer questions:'' \<and>
     \<not> sublist h '' multiple choice questions, essay questions:'' \<and>
     \<not> sublist h '' multiple choice questions:'' \<and>
     \<not> sublist h '' short answer questions, essay questions:'' \<and>
     \<not> sublist h '' short answer questions:'' \<and>
     \<not> sublist h '' essay questions:'' \<and>
     \<not> sublist h '' practice questions:'' \<and>
     \<not> sublist h ''   - Multiple choice questions (with 4 options and correct answer)'' \<and>
     \<not> sublist h ''   - Short answer questions'' \<and>
     \<not> sublist h ''   - Essay questions with key points to cover'' \<and>
     \<not> sublist h ''6. **STUDY TIPS** - Memory aids, mnemonics, and connections to help remember the material'' \<and>
     \<not> sublist h ''7. **SUMMARY** - Quick review of the most critical points'' \<and>
     \<not> sublist h ''Format everything in clear markdown with proper headers, bullet points, and emphasis where needed.''"
  by code_simp

lemma comprehensive_present:
  "sublist ''**OVERVIEW**'' ''1. **OVERVIEW** - Brief summary of the main topic and its importance'' \<and>
   sublist ''**KEY CONCEPTS**'' ''2. **KEY CONCEPTS** - Main ideas explained clearly with examples where relevant'' \<and>
   sublist ''**IMPORTANT DEFINITIONS**'' ''3. **IMPORTANT DEFINITIONS** - Essential terms with clear, concise definitions'' \<and>
   sublist ''**DETAILED NOTES**'' ''4. **DETAILED NOTES** - Concise and to-the-point explanation of the content, organized by subtopics'' \<and>
   sublist ''**DETAILED NOTES**'' ''4. **DETAILED NOTES** - Balanced with good coverage explanation of the content, organized by subtopics'' \<and>
   sublist ''**DETAILED NOTES**'' ''4. **DETAILED NOTES** - Comprehensive and thorough explanation of the content, organized by subtopics'' \<and>
   sublist ''**DETAILED NOTES**'' ''4. **DETAILED NOTES** - Extremely detailed with in-depth explanations explanation of the content, organized by subtopics'' \<and>
   sublist ''**PRACTICE QUESTIONS**'' ''5. **PRACTICE QUESTIONS** - Create '' \<and>
   sublist ''**STUDY TIPS**'' ''6. **STUDY TIPS** - Memory aids, mnemonics, and connections to help remember the material'' \<and>
   sublist ''**SUMMARY**'' ''7. **SUMMARY** - Quick review of the most critical points''"
  by code_simp

lemma summary_absent:
  "\<forall>h\<in>set (headers Comprehensive @ headers DefinitionsFocus @ headers QuestionsFocus).
     \<not> sublist h ''Create a concise and to-the-point summary of the following study material.'' \<and>
     \<not> sublist h ''Create a balanced with good coverage summary of the following study material.'' \<and>
     \<not> sublist h ''Create a comprehensive and thorough summary of the following study material.'' \<and>
     \<not> sublist h ''Create a extremely detailed with in-depth explanations summary of the following study material.'' \<and>
     \<not> sublist h ''STUDY MATERIAL:'' \<and>
     \<not> sublist h ''Provide:'' \<and>
     \<not> sublist h ''1. Main topic overview'' \<and>
     \<not> sublist h ''2. Key points and concepts (organized logically)'' \<and>
     \<not> sublist h ''3. Important takeaways'' \<and>
     \<not> sublist h ''4. Quick review summary'' \<and>
     \<not> sublist h ''Be concise and to-the-point and use clear markdown formatting.'' \<and>
     \<not> sublist h ''Be balanced with good coverage and use clear markdown formatting.'' \<and>
     \<not> sublist h ''Be comprehensive and thorough and use clear markdown formatting.'' \<and>
     \<not> sublist h ''Be extremely detailed with in-depth explanations and use clear markdown formatting.''"
  by code_simp

lemma summary_present:
  "sublist ''Main topic overview'' ''1. Main topic overview'' \<and>
   sublist ''Key points and concepts (organized logically)'' ''2. Key points and concepts (organized logically)'' \<and>
   sublist ''Important takeaways'' ''3. Important takeaways'' \<and>
   sublist ''Quick review summary'' ''4. Quick review summary''"
  by code_simp

lemma definitions_absent:
  "\<forall>h\<in>set (headers Comprehensive @ headers SummaryOnly @ headers QuestionsFocus).
     \<not> sublist h ''Extract and explain all important terms and concepts from the following material.'' \<and>
     \<not> sublist h ''STUDY MATERIAL:'' \<and>
     \<not> sublist h ''Create a comprehensive definitions guide with:'' \<and>
     \<not> sublist h ''1. **TERM**: Clear, concise and to-the-point definition'' \<and>
     \<not> sublist h ''1. **TERM**: Clear, balanced with good coverage definition'' \<and>
     \<not> sublist h ''1. **TERM**: Clear, comprehensive and thorough definition'' \<and>
     \<not> sublist h ''1. **TERM**: Clear, extremely detailed with in-depth explanations definition'' \<and>
     \<not> sublist h ''2. Context of how it's used'' \<and>
     \<not> sublist h ''3. Examples where helpful'' \<and>
     \<not> sublist h ''4. Related terms'' \<and>
     \<not> sublist h ''Organize alphabetically and use clear markdown formatting.''"
  by code_simp

lemma definitions_present:
  "sublist ''**TERM**'' ''1. **TERM**: Clear, concise and to-the-point definition'' \<and>
   sublist ''**TERM**'' ''1. **TERM**: Clear, balanced with good coverage definition'' \<and>
   sublist ''**TERM**'' ''1. **TERM**: Clear, comprehensive and thorough definition'' \<and>
   sublist ''**TERM**'' ''1. **TERM**: Clear, extremely detailed with in-depth explanations definition'' \<and>
   sublist ''Context of how it's used'' ''2. Context of how it's used'' \<and>
   sublist ''Examples where helpful'' ''3. Examples where helpful'' \<and>
   sublist ''Related terms'' ''4. Related terms''"
  by code_simp

lemma questions_absent:
  "\<forall>h\<in>set (headers Comprehensive @ headers SummaryOnly @ headers DefinitionsFocus).
     \<not> sublist h ''Create '' \<and>
     \<not> sublist h '' practice questions from the following study material.'' \<and>
     \<not> sublist h ''STUDY MATERIAL:'' \<and>
     \<not> sublist h ''Generate multiple choice questions, short answer questions, essay questions:'' \<and>
     \<not> sublist h ''Generate multiple choice questions, short answer questions:'' \<and>
     \<not> sublist h ''Generate multiple choice questions, essay questions:'' \<and>
     \<not> sublist h ''Generate multiple choice questions:'' \<and>
     \<not> sublist h ''Generate short answer questions, essay questions:'' \<and>
     \<not> sublist h ''Generate short answer questions:'' \<and>
     \<not> sublist h ''Generate essay questions:'' \<and>
     \<not> sublist h ''Generate practice questions:'' \<and>
     \<not> sublist h ''- Multiple choice questions with 4 options, correct answer, and brief explanation'' \<and>
     \<not> sublist h ''- Short answer questions with sample answers'' \<and>
     \<not> sublist h ''- Essay questions with key points that should be covered'' \<and>
     \<not> sublist h ''Include a variety of difficulty levels and ensure questions cover all major concepts.'' \<and>
     \<not> sublist h ''Format with clear markdown and proper numbering.''"
  by code_simp

lemma questions_present:
  "sublist ''practice questions from the following study material.'' '' practice questions from the following study material.'' \<and>
   sublist ''Include a variety of difficulty levels and ensure questions cover all major concepts.'' ''Include a variety of difficulty levels and ensure questions cover all major concepts.''"
  by code_simp

lemma other_families:
  assumes "h \<in> set (headers f)"
  shows "f \<noteq> Comprehensive \<Longrightarrow>
           h \<in> set (headers SummaryOnly @ headers DefinitionsFocus @ headers QuestionsFocus)"
    and "f \<noteq> SummaryOnly \<Longrightarrow>
           h \<in> set (headers Comprehensive @ headers DefinitionsFocus @ headers QuestionsFocus)"
    and "f \<noteq> DefinitionsFocus \<Longrightarrow>
           h \<in> set (headers Comprehensive @ headers SummaryOnly @ headers QuestionsFocus)"
    and "f \<noteq> QuestionsFocus \<Longrightarrow>
           h \<in> set (headers Comprehensive @ headers SummaryOnly @ headers DefinitionsFocus)"
proof -
  have "f = Comprehensive \<or> f = SummaryOnly \<or> f = DefinitionsFocus \<or> f = QuestionsFocus"
    by (cases f) simp_all
  with assms
  have m: "(f = Comprehensive \<and> h \<in> set (headers Comprehensive)) \<or>
        (f = SummaryOnly \<and> h \<in> set (headers SummaryOnly)) \<or>
        (f = DefinitionsFocus \<and> h \<in> set (headers DefinitionsFocus)) \<or>
        (f = QuestionsFocus \<and> h \<in> set (headers QuestionsFocus))"
    by blast
  show "f \<noteq> Comprehensive \<Longrightarrow>
           h \<in> set (headers SummaryOnly @ headers DefinitionsFocus @ headers QuestionsFocus)"
    unfolding set_append using m by blast
  show "f \<noteq> SummaryOnly \<Longrightarrow>
           h \<in> set (headers Comprehensive @ headers DefinitionsFocus @ headers QuestionsFocus)"
    unfolding set_append using m by blast
  show "f \<noteq> DefinitionsFocus \<Longrightarrow>
           h \<in> set (headers Comprehensive @ headers SummaryOnly @ headers QuestionsFocus)"
    unfolding set_append using m by blast
  show "f \<noteq> QuestionsFocus \<Longrightarrow>
           h \<in> set (headers Comprehensive @ headers SummaryOnly @ headers DefinitionsFocus)"
    unfolding set_append using m by blast
qed

lemma summary_headers:
  assumes d: "detail_mapping x = Some d" and h: "h \<in> set (headers f)"
  shows "(\<exists>l\<in>set (summary_lines study_material d). sublist (lit h) l) \<longleftrightarrow>
           f = SummaryOnly \<or> sublist (lit h) study_material"
proof (cases "f = SummaryOnly")
  case True
  with h have "h = ''Main topic overview'' \<or>
      h = ''Key points and concepts (organized logically)'' \<or>
      h = ''Important takeaways'' \<or> h = ''Quick review summary''"
    by simp
  then have "\<exists>l\<in>set (summary_lines study_material d). sublist (lit h) l"
    using summary_present
    by (elim disjE) (simp_all add: summary_lines_def)
  with True show ?thesis by simp
next
  case False
  note absent = summary_absent [rule_format, OF other_families(2) [OF h False]]
  note shape = header_shape_family [OF h]
  have first: "\<not> sublist (lit h) (lit ''Create a '' @ d
      @ lit '' summary of the following study material.'')"
    using detail_mapping_cases [OF d] absent
    by (elim disjE) (simp_all add: lit_append [symmetric])
  have last: "\<not> sublist (lit h) (lit ''Be '' @ d @ lit '' and use clear markdown formatting.'')"
    using detail_mapping_cases [OF d] absent
    by (elim disjE) (simp_all add: lit_append [symmetric])
  have "(\<exists>l\<in>set (summary_lines study_material d). sublist (lit h) l) \<longleftrightarrow>
          sublist (lit h) study_material"
    using absent shape(1) first last by (simp add: summary_lines_def)
  with False show ?thesis by simp
qed

lemma definitions_headers:
  assumes d: "detail_mapping x = Some d" and h: "h \<in> set (headers f)"
  shows "(\<exists>l\<in>set (definitions_lines study_material d). sublist (lit h) l) \<longleftrightarrow>
           f = DefinitionsFocus \<or> sublist (lit h) study_material"
proof (cases "f = DefinitionsFocus")
  case True
  have "term": "sublist (lit ''**TERM**'') (lit ''1. **TERM**: Clear, '' @ d @ lit '' definition'')"
    using detail_mapping_cases [OF d] definitions_present
    by (elim disjE) (simp_all add: lit_append [symmetric])
  from True h have "h = ''**TERM**'' \<or> h = ''Context of how it's used'' \<or>
      h = ''Examples where helpful'' \<or> h = ''Related terms''"
    by simp
  then have "\<exists>l\<in>set (definitions_lines study_material d). sublist (lit h) l"
    using definitions_present "term"
    by (elim disjE) (simp_all add: definitions_lines_def)
  with True show ?thesis by simp
next
  case False
  note absent = definitions_absent [rule_format, OF other_families(3) [OF h False]]
  note shape = header_shape_family [OF h]
  have first: "\<not> sublist (lit h) (lit ''1. **TERM**: Clear, '' @ d @ lit '' definition'')"
    using detail_mapping_cases [OF d] absent
    by (elim disjE) (simp_all add: lit_append [symmetric])
  have "(\<exists>l\<in>set (definitions_lines study_material d). sublist (lit h) l) \<longleftrightarrow>
          sublist (lit h) study_material"
    using absent shape(1) first by (simp add: definitions_lines_def)
  with False show ?thesis by simp
qed

lemma questions_headers:
  assumes h: "h \<in> set (headers f)"
  shows "(\<exists>l\<in>set (questions_lines study_material n (question_type_str mcq short essay)
              mcq short essay). sublist (lit h) l) \<longleftrightarrow>
           f = QuestionsFocus \<or> sublist (lit h) study_material"
proof (cases "f = QuestionsFocus")
  case True
  note shape = header_shape_family [OF h]
  from True h have "h = ''practice questions from the following study material.'' \<or>
      h = ''Include a variety of difficulty levels and ensure questions cover all major concepts.''"
    by simp
  then have "\<exists>l\<in>set (questions_lines study_material n (question_type_str mcq short essay)
      mcq short essay). sublist (lit h) l"
  proof
    assume "h = ''practice questions from the following study material.''"
    with questions_present shape(1,3)
    have "sublist (lit h) (lit ''Create '' @ str_int n
        @ lit '' practice questions from the following study material.'')"
      by (simp only: sublist_lit_str_int sublist_lit simp_thms)
    then show ?thesis
      by (simp add: questions_lines_def)
  next
    assume "h = ''Include a variety of difficulty levels and ensure questions cover all major concepts.''"
    with questions_present show ?thesis
      by (simp add: questions_lines_def)
  qed
  with True show ?thesis by simp
next
  case False
  note absent = questions_absent [rule_format, OF other_families(4) [OF h False]]
  note shape = header_shape_family [OF h]
  have first: "\<not> sublist (lit h) (lit ''Create '' @ str_int n
      @ lit '' practice questions from the following study material.'')"
    using absent shape(1,3) by (simp only: sublist_lit_str_int sublist_lit simp_thms)
  have types: "\<not> sublist (lit h) (lit ''Generate '' @ question_type_str mcq short essay
      @ lit '':'')"
    using absent
    by (cases mcq; cases short; cases essay)
       (simp_all add: question_type_str_def question_types_def lit_append [symmetric])
  have "(\<exists>l\<in>set (questions_lines study_material n (question_type_str mcq short essay)
      mcq short essay). sublist (lit h) l) \<longleftrightarrow> sublist (lit h) study_material"
    using absent shape(1) first types by (simp add: questions_lines_def)
  with False show ?thesis by simp
qed

lemma comprehensive_headers:
  assumes d: "detail_mapping x = Some d" and h: "h \<in> set (headers f)"
  shows "(\<exists>l\<in>set (comprehensive_lines study_material d n (question_type_str mcq short essay)
              mcq short essay). sublist (lit h) l) \<longleftrightarrow>
           f = Comprehensive \<or> sublist (lit h) study_material"
proof (cases "f = Comprehensive")
  case True
  note shape = header_shape_family [OF h]
  have detailed: "sublist (lit ''**DETAILED NOTES**'') (lit ''4. **DETAILED NOTES** - ''
      @ capitalize d @ lit '' explanation of the content, organized by subtopics'')"
    using detail_mapping_cases [OF d] comprehensive_present
    by (elim disjE) (simp_all add: capitalize_phrases lit_append [symmetric])
  have practice: "h = ''**PRACTICE QUESTIONS**'' \<Longrightarrow>
      sublist (lit h) (lit ''5. **PRACTICE QUESTIONS** - Create '' @ str_int n @ lit '' ''
        @ question_type_str mcq short essay @ lit '':'')"
    using comprehensive_present shape(1,3)
    by (simp only: sublist_lit_str_int simp_thms)
  from True h have "h = ''**OVERVIEW**'' \<or> h = ''**KEY CONCEPTS**'' \<or>
      h = ''**IMPORTANT DEFINITIONS**'' \<or> h = ''**DETAILED NOTES**'' \<or>
      h = ''**PRACTICE QUESTIONS**'' \<or> h = ''**STUDY TIPS**'' \<or> h = ''**SUMMARY**''"
    by simp
  then have "\<exists>l\<in>set (comprehensive_lines study_material d n (question_type_str mcq short essay)
      mcq short essay). sublist (lit h) l"
    using comprehensive_present detailed practice
    by (elim disjE) (simp_all add: comprehensive_lines_def)
  with True show ?thesis by simp
next
  case False
  note absent = comprehensive_absent [rule_format, OF other_families(1) [OF h False]]
  note shape = header_shape_family [OF h]
  have first: "\<not> sublist (lit h) (lit ''Create a '' @ d
      @ lit '' study guide from the following material.'')"
    using detail_mapping_cases [OF d] absent
    by (elim disjE) (simp_all add: lit_append [symmetric])
  have detailed: "\<not> sublist (lit h) (lit ''4. **DETAILED NOTES** - '' @ capitalize d
      @ lit '' explanation of the content, organized by subtopics'')"
    using detail_mapping_cases [OF d] absent
    by (elim disjE) (simp_all add: capitalize_phrases lit_append [symmetric])
  have types: "\<not> sublist (lit h) (lit '' '' @ question_type_str mcq short essay @ lit '':'')"
    using absent
    by (cases mcq; cases short; cases essay)
       (simp_all add: question_type_str_def question_types_def lit_append [symmetric])
  have practice: "\<not> sublist (lit h) (lit ''5. **PRACTICE QUESTIONS** - Create ''
      @ str_int n @ lit '' '' @ question_type_str mcq short essay @ lit '':'')"
    using absent shape(1,3) types by (simp only: sublist_lit_str_int simp_thms)
  have "(\<exists>l\<in>set (comprehensive_lines study_material d n (question_type_str mcq short essay)
      mcq short essay). sublist (lit h) l) \<longleftrightarrow> sublist (lit h) study_material"
    using absent shape(1) first detailed practice by (simp add: comprehensive_lines_def)
  with False show ?thesis by simp
qed

text \<open>
  C3, as the program has it. For every guide type the prompt is built from exactly one
  of the four template families, the one the guide type selects, and every
  distinguishing header of that family occurs in the prompt. A distinguishing header of
  another family occurs in the prompt exactly when it occurs in the study material
  itself, which every template embeds verbatim: the text of the template around the
  material holds none of them.
\<close>

theorem template_exclusive:
  assumes "prompt study_material opts = Inr p" and "h \<in> set (headers f)"
  shows "sublist (lit h) p \<longleftrightarrow>
           f = family_of (guide_type opts) \<or> sublist (lit h) study_material"
proof -
  note shape = header_shape_family [OF assms(2)]
  have join: "sublist (lit h) (py_join nl ls) \<longleftrightarrow> (\<exists>l\<in>set ls. sublist (lit h) l)" for ls
    using shape by (simp add: sublist_py_join)
  consider (c) "guide_type opts = lit ''Comprehensive (All sections)''"
    | (s) "guide_type opts \<noteq> lit ''Comprehensive (All sections)''"
          "guide_type opts = lit ''Summary Only''"
    | (d) "guide_type opts \<noteq> lit ''Comprehensive (All sections)''"
          "guide_type opts \<noteq> lit ''Summary Only''"
          "guide_type opts = lit ''Definitions Focus''"
    | (q) "guide_type opts \<noteq> lit ''Comprehensive (All sections)''"
          "guide_type opts \<noteq> lit ''Summary Only''"
          "guide_type opts \<noteq> lit ''Definitions Focus''"
    by blast
  then show ?thesis
  proof cases
    case c
    with assms(1) obtain d where d: "detail_mapping (detail_level opts) = Some d"
      and p: "p = py_join nl (comprehensive_lines study_material d (num_questions opts)
          (question_type_str (include_mcq opts) (include_short opts) (include_essay opts))
          (include_mcq opts) (include_short opts) (include_essay opts))"
      by (auto simp add: prompt_def split: option.splits)
    from c have "family_of (guide_type opts) = Comprehensive"
      by (simp add: family_of_def)
    then show ?thesis
      unfolding p join using comprehensive_headers [OF d assms(2)] by simp
  next
    case s
    with assms(1) obtain d where d: "detail_mapping (detail_level opts) = Some d"
      and p: "p = py_join nl (summary_lines study_material d)"
      by (auto simp add: prompt_def split: option.splits)
    from s have "family_of (guide_type opts) = SummaryOnly"
      by (simp add: family_of_def)
    then show ?thesis
      unfolding p join using summary_headers [OF d assms(2)] by simp
  next
    case d
    with assms(1) obtain d' where d': "detail_mapping (detail_level opts) = Some d'"
      and p: "p = py_join nl (definitions_lines study_material d')"
      by (auto simp add: prompt_def split: option.splits)
    from d have "family_of (guide_type opts) = DefinitionsFocus"
      by (simp add: family_of_def)
    then show ?thesis
      unfolding p join using definitions_headers [OF d' assms(2)] by simp
  next
    case q
    with assms(1) have p: "p = py_join nl (questions_lines study_material (num_questions opts)
          (question_type_str (include_mcq opts) (include_short opts) (include_essay opts))
          (include_mcq opts) (include_short opts) (include_essay opts))"
      by (auto simp add: prompt_def)
    from q have "family_of (guide_type opts) = QuestionsFocus"
      by (simp add: family_of_def)
    then show ?thesis
      unfolding p join using questions_headers [OF assms(2)] by simp
  qed
qed

lemma prompt_summary_options:
  "prompt study_material summary_options =
     Inr (py_join nl (summary_lines study_material (lit ''concise and to-the-point'')))"
  by (simp add: prompt_def summary_options_def detail_mapping_def)

lemma material_50_headers:
  "\<not> sublist ''**OVERVIEW**'' ''  Photosynthesis converts light energy into sugars!! '' \<and>
   \<not> sublist ''**TERM**'' ''  Photosynthesis converts light energy into sugars!! '' \<and>
   \<not> sublist ''Include a variety of difficulty levels and ensure questions cover all major concepts.''
      ''  Photosynthesis converts light energy into sugars!! ''"
  by code_simp

lemma overview_material_header:
  "sublist ''**OVERVIEW**''
     ''Notes on the **OVERVIEW** page: light reactions and the Calvin cycle.''"
  by code_simp

theorem template_exclusive_witness:
  "sublist (lit ''Important takeaways'')
     (py_join nl (summary_lines material_50 (lit ''concise and to-the-point''))) \<and>
   \<not> sublist (lit ''**OVERVIEW**'')
     (py_join nl (summary_lines material_50 (lit ''concise and to-the-point''))) \<and>
   \<not> sublist (lit ''**TERM**'')
     (py_join nl (summary_lines material_50 (lit ''concise and to-the-point''))) \<and>
   \<not> sublist (lit ''Include a variety of difficulty levels and ensure questions cover all major concepts.'')
     (py_join nl (summary_lines material_50 (lit ''concise and to-the-point'')))"
  using
    template_exclusive [OF prompt_summary_options,
      of "''Important takeaways''" SummaryOnly material_50]
    template_exclusive [OF prompt_summary_options,
      of "''**OVERVIEW**''" Comprehensive material_50]
    template_exclusive [OF prompt_summary_options,
      of "''**TERM**''" DefinitionsFocus material_50]
    template_exclusive [OF prompt_summary_options,
      of "''Include a variety of difficulty levels and ensure questions cover all major concepts.''"
         QuestionsFocus material_50]
    material_50_headers
  by (simp add: family_of_def summary_options_def material_50_def)

text \<open>
  C3 as stated fails when the material itself holds a header of another family: the
  Summary Only prompt for a material that mentions \<open>**OVERVIEW**\<close> contains that header
  of the Comprehensive family.
\<close>

theorem header_from_material:
  "''**OVERVIEW**'' \<in> set (headers Comprehensive) \<and>
   family_of (guide_type summary_options) = SummaryOnly \<and>
   prompt overview_material summary_options =
     Inr (py_join nl (summary_lines overview_material (lit ''concise and to-the-point''))) \<and>
   sublist (lit ''**OVERVIEW**'')
     (py_join nl (summary_lines overview_material (lit ''concise and to-the-point'')))"
proof -
  have h: "''**OVERVIEW**'' \<in> set (headers Comprehensive)"
    by simp
  have d: "detail_mapping (lit ''Brief'') = Some (lit ''concise and to-the-point'')"
    by (simp add: detail_mapping_def)
  have "sublist (lit ''**OVERVIEW**'') overview_material"
    using overview_material_header by (simp add: overview_material_def)
  then have "\<exists>l\<in>set (summary_lines overview_material (lit ''concise and to-the-point'')).
      sublist (lit ''**OVERVIEW**'') l"
    using summary_headers [OF d h, of overview_material] by simp
  moreover have "lit ''**OVERVIEW**'' \<noteq> []"
    by simp
  ultimately have joined: "sublist (lit ''**OVERVIEW**'')
      (py_join nl (summary_lines overview_material (lit ''concise and to-the-point'')))"
    using sublist_py_join [OF header_shape_family(2) [OF h]] by blast
  have "family_of (guide_type summary_options) = SummaryOnly"
    by (simp add: family_of_def summary_options_def)
  with joined show ?thesis
    using h prompt_summary_options [of overview_material] by simp
qed

end
